theory Spec2Isabelle
  imports Main "HOL-Library.Sublist" "HOL-Library.Char_ord" "HOL-Library.List_Lexorder"
    "HOL-Library.Product_Lexorder"
begin

section \<open>Reaction service (server/router/api/v1/reaction_service.go)\<close>

subsection \<open>Data\<close>

text \<open>
  The gRPC status codes of \<^verbatim>\<open>google.golang.org/grpc/codes\<close>. The handlers build their
  errors with \<^verbatim>\<open>status.Errorf(code, format, ...)\<close>; a \<open>Status\<close> carries the code and the
  formatted message. \<open>Panic\<close> is the nil-pointer dereference of \<^verbatim>\<open>request.Reaction\<close>.
\<close>

datatype codes =
    OK | Canceled | Unknown | InvalidArgument | DeadlineExceeded | NotFound
  | AlreadyExists | PermissionDenied | ResourceExhausted | FailedPrecondition
  | Aborted | OutOfRange | Unimplemented | Internal | Unavailable | DataLoss
  | Unauthenticated

datatype failure = Status codes string | Panic

text \<open>
  \<^verbatim>\<open>store.Reaction\<close>: the fields the handlers read and write. Row ids and user ids are
  \<^verbatim>\<open>int32\<close> and timestamps \<^verbatim>\<open>int64\<close> in Go; the handlers copy, compare and print them and
  do no arithmetic on them, so they are integers here.
\<close>

record store_Reaction =
  ID :: int
  CreatedTs :: int
  CreatorID :: int
  ContentID :: string
  ReactionType :: string

text \<open>
  \<^verbatim>\<open>store.FindReaction\<close>: every filter is a pointer, \<open>None\<close> when it is not set. The handlers
  set \<^verbatim>\<open>ContentID\<close> (listing) or \<^verbatim>\<open>ID\<close> (lookup before deletion).
\<close>

record FindReaction =
  Find_ID :: "int option"
  Find_ContentID :: "string option"

text \<open>\<^verbatim>\<open>timestamppb.Timestamp\<close> and the API message \<^verbatim>\<open>v1pb.Reaction\<close>.\<close>

record Timestamp =
  seconds :: int
  nanos :: int

record v1pb_Reaction =
  Name :: string
  Creator :: string
  ContentId :: string
  ReactionType_pb :: string
  CreateTime :: "Timestamp option"

record ListMemoReactionsResponse =
  Reactions :: "v1pb_Reaction list"

text \<open>
  \<^verbatim>\<open>store.User\<close> and \<^verbatim>\<open>store.Memo\<close> are declared outside this file; the handlers read only
  their \<^verbatim>\<open>ID\<close>. The remaining fields are the record extension.
\<close>

record User =
  User_ID :: int

record Memo =
  Memo_ID :: int

text \<open>A warning written with \<^verbatim>\<open>slog.Warn(msg, slog.Any("err", err))\<close>.\<close>

datatype log_entry = Warn string string

subsection \<open>Collaborators\<close>

text \<open>
  Everything the handlers call that is declared elsewhere in the package is a parameter:
  the authentication helpers, the resource-name helpers and prefixes, the store, the memo
  converter and the webhook dispatcher. \<open>'s\<close> is the state of the store and of the outside
  world; a Go \<^verbatim>\<open>error\<close> is its text. Queries read the state, \<^verbatim>\<open>UpsertReaction\<close>,
  \<^verbatim>\<open>DeleteReaction\<close> and \<^verbatim>\<open>DispatchMemoReactedWebhook\<close> return the state they leave. The
  request context \<^verbatim>\<open>ctx\<close> is handed unchanged to every call, so the parameters are closed
  over it. \<^verbatim>\<open>FindMemo\<close>, \<^verbatim>\<open>FindAttachment\<close> and \<^verbatim>\<open>store.DeleteReaction\<close> are each built
  with one field, which is passed directly.
\<close>

record ('s, 'u, 'm, 'a, 'mm) env =
  fetchCurrentUser :: "'s \<Rightarrow> string + ('u User_scheme) option"
  isSuperUser :: "'u User_scheme \<Rightarrow> bool"
  ExtractMemoUIDFromName :: "string \<Rightarrow> string + string"
  ExtractMemoReactionIDFromName :: "string \<Rightarrow> string + (string \<times> int)"
  ReactionNamePrefix :: string
  UserNamePrefix :: string
  ListReactions :: "'s \<Rightarrow> FindReaction \<Rightarrow> string + store_Reaction list"
  GetReaction :: "'s \<Rightarrow> FindReaction \<Rightarrow> string + store_Reaction option"
  UpsertReaction :: "'s \<Rightarrow> store_Reaction \<Rightarrow> (string + store_Reaction) \<times> 's"
  DeleteReaction :: "'s \<Rightarrow> int \<Rightarrow> string option \<times> 's"
  GetMemo :: "'s \<Rightarrow> string \<Rightarrow> string + ('m Memo_scheme) option"
  ListAttachments :: "'s \<Rightarrow> int \<Rightarrow> string + 'a list"
  convertMemoFromStore ::
    "'s \<Rightarrow> 'm Memo_scheme \<Rightarrow> store_Reaction list \<Rightarrow> 'a list \<Rightarrow> string + 'mm"
  DispatchMemoReactedWebhook :: "'s \<Rightarrow> 'mm \<Rightarrow> v1pb_Reaction \<Rightarrow> string option \<times> 's"

subsection \<open>Formatting\<close>

text \<open>\<^verbatim>\<open>fmt.Sprintf("%d", n)\<close>: the decimal digits, with a minus sign below zero.\<close>

definition digit :: "nat \<Rightarrow> char" where
  "digit d = ''0123456789'' ! d"

fun fmt_nat :: "nat \<Rightarrow> string" where
  "fmt_nat n = (if n < 10 then [digit n] else fmt_nat (n div 10) @ [digit (n mod 10)])"

definition fmt_d :: "int \<Rightarrow> string" where
  "fmt_d i = (if i < 0 then CHR ''-'' # fmt_nat (nat (- i)) else fmt_nat (nat i))"

subsection \<open>Handlers\<close>

definition convertReactionFromStore ::
  "('s, 'u, 'm, 'a, 'mm) env \<Rightarrow> store_Reaction \<Rightarrow> v1pb_Reaction" where
  "convertReactionFromStore env reaction =
     (let reactionUID = fmt_d (ID reaction) in
      \<lparr> Name = ContentID reaction @ ''/'' @ ReactionNamePrefix env @ reactionUID,
        Creator = UserNamePrefix env @ fmt_d (CreatorID reaction),
        ContentId = ContentID reaction,
        ReactionType_pb = ReactionType reaction,
        CreateTime = Some \<lparr> seconds = CreatedTs reaction, nanos = 0 \<rparr> \<rparr>)"

text \<open>\<^verbatim>\<open>ListMemoReactions\<close>; the request is its \<^verbatim>\<open>Name\<close>. It only queries the store.\<close>

definition ListMemoReactions ::
  "('s, 'u, 'm, 'a, 'mm) env \<Rightarrow> 's \<Rightarrow> string \<Rightarrow> failure + ListMemoReactionsResponse" where
  "ListMemoReactions env st request_Name =
     (case ListReactions env st \<lparr> Find_ID = None, Find_ContentID = Some request_Name \<rparr> of
        Inl err \<Rightarrow> Inl (Status Internal ''failed to list reactions'')
      | Inr reactions \<Rightarrow>
          Inr \<lparr> Reactions = map (convertReactionFromStore env) reactions \<rparr>)"

text \<open>
  The webhook block of \<^verbatim>\<open>UpsertMemoReaction\<close> (from \<^verbatim>\<open>ExtractMemoUIDFromName\<close> to the end of
  the enclosing \<^verbatim>\<open>if\<close>), run after the reaction has been stored and converted. It yields
  the state left behind and the warnings written, nothing else.
\<close>

definition reactionWebhook ::
  "('s, 'u, 'm, 'a, 'mm) env \<Rightarrow> 's \<Rightarrow> string \<Rightarrow> v1pb_Reaction \<Rightarrow> 's \<times> log_entry list" where
  "reactionWebhook env st content_id reactionMessage =
     (case ExtractMemoUIDFromName env content_id of
        Inl err \<Rightarrow> (st, [])
      | Inr memoUID \<Rightarrow>
          (case GetMemo env st memoUID of
             Inl err \<Rightarrow> (st, [])
           | Inr None \<Rightarrow> (st, [])
           | Inr (Some memo) \<Rightarrow>
               (let (reactions, w1) =
                      (case ListReactions env st
                              \<lparr> Find_ID = None, Find_ContentID = Some content_id \<rparr> of
                         Inl err \<Rightarrow> ([], [Warn ''Failed to list reactions for webhook'' err])
                       | Inr rs \<Rightarrow> (rs, []));
                    (attachments, w2) =
                      (case ListAttachments env st (Memo_ID memo) of
                         Inl err \<Rightarrow> ([], [Warn ''Failed to list attachments for webhook'' err])
                       | Inr as \<Rightarrow> (as, []))
                in (case convertMemoFromStore env st memo reactions attachments of
                      Inr memoMessage \<Rightarrow>
                        (case DispatchMemoReactedWebhook env st memoMessage reactionMessage of
                           (Some err, st') \<Rightarrow>
                             (st', w1 @ w2 @ [Warn ''Failed to dispatch memo reacted webhook'' err])
                         | (None, st') \<Rightarrow> (st', w1 @ w2))
                    | Inl err \<Rightarrow>
                        (st, w1 @ w2 @ [Warn ''Failed to convert memo for reaction webhook'' err])))))"

text \<open>
  \<^verbatim>\<open>UpsertMemoReaction\<close>; the request is its \<^verbatim>\<open>Reaction\<close>, a pointer that may be nil. The
  struct handed to the store leaves \<^verbatim>\<open>ID\<close> and \<^verbatim>\<open>CreatedTs\<close> at their zero values.
\<close>

definition UpsertMemoReaction ::
  "('s, 'u, 'm, 'a, 'mm) env \<Rightarrow> 's \<Rightarrow> v1pb_Reaction option
     \<Rightarrow> (failure + v1pb_Reaction) \<times> 's \<times> log_entry list" where
  "UpsertMemoReaction env st request_Reaction =
     (case fetchCurrentUser env st of
        Inl err \<Rightarrow> (Inl (Status Internal ''failed to get current user''), st, [])
      | Inr None \<Rightarrow> (Inl (Status Unauthenticated ''user not authenticated''), st, [])
      | Inr (Some user) \<Rightarrow>
          (case request_Reaction of
             None \<Rightarrow> (Inl Panic, st, [])
           | Some rq \<Rightarrow>
               (case UpsertReaction env st
                       \<lparr> ID = 0, CreatedTs = 0, CreatorID = User_ID user,
                         ContentID = ContentId rq, ReactionType = ReactionType_pb rq \<rparr> of
                  (Inl err, st1) \<Rightarrow> (Inl (Status Internal ''failed to upsert reaction''), st1, [])
                | (Inr reaction, st1) \<Rightarrow>
                    (let reactionMessage = convertReactionFromStore env reaction;
                         (st2, ws) = reactionWebhook env st1 (ContentId rq) reactionMessage
                     in (Inr reactionMessage, st2, ws)))))"

text \<open>\<^verbatim>\<open>DeleteMemoReaction\<close>; the request is its \<^verbatim>\<open>Name\<close>. It writes no warning.\<close>

definition DeleteMemoReaction ::
  "('s, 'u, 'm, 'a, 'mm) env \<Rightarrow> 's \<Rightarrow> string \<Rightarrow> (failure + unit) \<times> 's" where
  "DeleteMemoReaction env st request_Name =
     (case fetchCurrentUser env st of
        Inl err \<Rightarrow> (Inl (Status Internal (''failed to get current user: '' @ err)), st)
      | Inr None \<Rightarrow> (Inl (Status Unauthenticated ''user not authenticated''), st)
      | Inr (Some user) \<Rightarrow>
          (case ExtractMemoReactionIDFromName env request_Name of
             Inl err \<Rightarrow> (Inl (Status InvalidArgument (''invalid reaction name: '' @ err)), st)
           | Inr (memo_part, reactionID) \<Rightarrow>
               (case GetReaction env st \<lparr> Find_ID = Some reactionID, Find_ContentID = None \<rparr> of
                  Inl err \<Rightarrow> (Inl (Status Internal ''failed to get reaction''), st)
                | Inr None \<Rightarrow> (Inl (Status PermissionDenied ''permission denied''), st)
                | Inr (Some reaction) \<Rightarrow>
                    (if CreatorID reaction \<noteq> User_ID user \<and> \<not> isSuperUser env user
                     then (Inl (Status PermissionDenied ''permission denied''), st)
                     else (case DeleteReaction env st reactionID of
                             (Some err, st1) \<Rightarrow>
                               (Inl (Status Internal ''failed to delete reaction''), st1)
                           | (None, st1) \<Rightarrow> (Inr (), st1))))))"

section \<open>Tag listing\<close>

text \<open>
  \<^verbatim>\<open>ListUserTags\<close> and its helper \<^verbatim>\<open>sortTagsByHierarchy\<close> are exercised by
  \<^verbatim>\<open>test/user_service_tags_test.go\<close>, but their code is not among the sources. The
  definitions of this section follow the specification (sections 3, 4.1 and 4.2).
\<close>

text \<open>
  Modelled from the spec: the visibility tiers and the content item of section 3 (identity,
  creator, tier and tags), whose declarations are not among the sources. The tags are a list:
  the tests store repeated and empty tags.
\<close>

datatype Visibility = PRIVATE | PROTECTED | PUBLIC

record ContentItem =
  contentId :: string
  creatorId :: int
  visibility :: Visibility
  tags :: "string list"

text \<open>
  Modelled from the spec: the requester of section 3, either anonymous or
  \<open>Authenticated userId isPrivileged\<close>.
\<close>

datatype Requester = Anonymous | Authenticated int bool

text \<open>
  Modelled from the spec: the visibility policy \<^verbatim>\<open>canView\<close>, which is not among the sources.
  The five rules of section 4.1, in their priority order.
\<close>

fun canView :: "Visibility \<Rightarrow> int \<Rightarrow> Requester \<Rightarrow> bool" where
  "canView v creator requester =
     (if (case requester of Authenticated uid p \<Rightarrow> uid = creator | Anonymous \<Rightarrow> False) then True
      else if (case requester of Authenticated uid p \<Rightarrow> p | Anonymous \<Rightarrow> False) then True
      else if v = PUBLIC then True
      else if v = PROTECTED \<and> requester \<noteq> Anonymous then True
      else False)"

text \<open>
  Modelled from the spec: white space, which the spec names without listing the characters.
  Taken are the code points with the Unicode property White_Space, which are the ones Go's
  \<^verbatim>\<open>unicode.IsSpace\<close> accepts and \<^verbatim>\<open>strings.TrimSpace\<close> removes: tab to carriage return,
  space, next line, no-break space, ogham space mark, en quad to hair space, line and
  paragraph separator, narrow no-break space, medium mathematical space, ideographic space.
\<close>

definition White_Space :: "nat list" where
  "White_Space =
     [0x0009, 0x000A, 0x000B, 0x000C, 0x000D, 0x0020, 0x0085, 0x00A0, 0x1680,
      0x2000, 0x2001, 0x2002, 0x2003, 0x2004, 0x2005, 0x2006, 0x2007, 0x2008, 0x2009, 0x200A,
      0x2028, 0x2029, 0x202F, 0x205F, 0x3000]"

text \<open>
  Modelled from the spec: a tag is a string of bytes, so a code point is met as its UTF-8
  encoding.
\<close>

definition utf8 :: "nat \<Rightarrow> string" where
  "utf8 cp =
     (if cp < 0x80 then [char_of cp]
      else if cp < 0x800 then [char_of (0xC0 + cp div 0x40), char_of (0x80 + cp mod 0x40)]
      else if cp < 0x10000 then
        [char_of (0xE0 + cp div 0x1000), char_of (0x80 + cp div 0x40 mod 0x40),
         char_of (0x80 + cp mod 0x40)]
      else
        [char_of (0xF0 + cp div 0x40000), char_of (0x80 + cp div 0x1000 mod 0x40),
         char_of (0x80 + cp div 0x40 mod 0x40), char_of (0x80 + cp mod 0x40)])"

text \<open>Modelled from the spec: the byte sequences that are one white space character.\<close>

definition space_encodings :: "string list" where
  "space_encodings = map utf8 White_Space"

text \<open>
  Modelled from the spec: the number of bytes of the white space character a string starts
  with, and of the one it ends with; 0 when there is none. UTF-8 lead bytes are never
  continuation bytes, so a matching suffix is a whole character.
\<close>

definition leadingSpace :: "string \<Rightarrow> nat" where
  "leadingSpace s =
     (case find (\<lambda>e. prefix e s) space_encodings of Some e \<Rightarrow> length e | None \<Rightarrow> 0)"

definition trailingSpace :: "string \<Rightarrow> nat" where
  "trailingSpace s =
     (case find (\<lambda>e. suffix e s) space_encodings of Some e \<Rightarrow> length e | None \<Rightarrow> 0)"

text \<open>
  Modelled from the spec: trimming removes the white space characters at the start of a tag
  and those at its end, one character at a time.
\<close>

fun TrimLeft :: "string \<Rightarrow> string" where
  "TrimLeft s =
     (if s = [] \<or> leadingSpace s = 0 then s else TrimLeft (drop (leadingSpace s) s))"

fun TrimRight :: "string \<Rightarrow> string" where
  "TrimRight s =
     (if s = [] \<or> trailingSpace s = 0 then s
      else TrimRight (take (length s - trailingSpace s) s))"

declare TrimLeft.simps [simp del] TrimRight.simps [simp del]

definition TrimSpace :: "string \<Rightarrow> string" where
  "TrimSpace s = TrimRight (TrimLeft s)"

text \<open>
  Modelled from the spec: splitting a tag on \<^verbatim>\<open>/\<close> into its segments (section 4.2, step 4).
  The empty string has one empty segment, as with Go's \<^verbatim>\<open>strings.Split\<close>.
\<close>

fun segments :: "string \<Rightarrow> string list" where
  "segments [] = [[]]"
| "segments (c # cs) =
     (if c = CHR ''/'' then [] # segments cs
      else (case segments cs of s # ss \<Rightarrow> (c # s) # ss | [] \<Rightarrow> [[c]]))"

text \<open>
  Modelled from the spec: the outcome of comparing two tags segment by segment (section
  4.2, step 4): the first sorts before the second, they tie, or it sorts after.
\<close>

datatype cmp = Before | Tie | After

text \<open>
  Modelled from the spec: the segment-by-segment comparison of section 4.2, step 4, which is
  not among the sources. Segments are compared one by one on their normalised keys; a tag
  whose segments run out first is an ancestor and sorts before. The normalisation
  (stripping pictographic characters) is the parameter \<open>norm\<close>: section 9 leaves its
  character ranges open. Strings are bytes and \<open><\<close> on them is the lexicographic order of
  Go's string comparison, which is the code point order of UTF-8 text.
\<close>

fun compareSegments :: "(string \<Rightarrow> string) \<Rightarrow> string list \<Rightarrow> string list \<Rightarrow> cmp" where
  "compareSegments norm [] [] = Tie"
| "compareSegments norm [] (y # ys) = Before"
| "compareSegments norm (x # xs) [] = After"
| "compareSegments norm (x # xs) (y # ys) =
     (if norm x < norm y then Before
      else if norm y < norm x then After
      else compareSegments norm xs ys)"

text \<open>
  Modelled from the spec: the hierarchy-aware comparator. The raw strings break the tie
  when every normalised segment is equal, and only then: the expected outputs of
  \<^verbatim>\<open>TestSortTagsByHierarchy\<close> put \<^verbatim>\<open>Resource/Books\<close> before \<^verbatim>\<open>Resource/Culture\<close> whatever
  pictographs decorate the two \<^verbatim>\<open>Resource\<close> segments.
\<close>

definition tagBefore :: "(string \<Rightarrow> string) \<Rightarrow> string \<Rightarrow> string \<Rightarrow> bool" where
  "tagBefore norm a b =
     (case compareSegments norm (segments a) (segments b) of
        Before \<Rightarrow> True
      | After \<Rightarrow> False
      | Tie \<Rightarrow> a < b)"

text \<open>
  Modelled from the spec: inserting a tag into a sorted list, after the tags that sort
  before it.
\<close>

fun insertTag :: "(string \<Rightarrow> string) \<Rightarrow> string \<Rightarrow> string list \<Rightarrow> string list" where
  "insertTag norm t [] = [t]"
| "insertTag norm t (x # xs) =
     (if tagBefore norm x t then x # insertTag norm t xs else t # x # xs)"

text \<open>
  Modelled from the spec: the sort of section 4.2, step 4, as an insertion sort with that
  comparator; \<^verbatim>\<open>sortTagsByHierarchy\<close> is the name the test file gives the helper.
\<close>

fun sortTagsByHierarchy :: "(string \<Rightarrow> string) \<Rightarrow> string list \<Rightarrow> string list" where
  "sortTagsByHierarchy norm [] = []"
| "sortTagsByHierarchy norm (t # ts) = insertTag norm t (sortTagsByHierarchy norm ts)"

text \<open>
  Modelled from the spec: steps 1 and 2 of \<^verbatim>\<open>aggregateTags\<close> (section 4.2): keep the items
  the requester may view, each item judged on its own, and flatten their tags.
\<close>

definition visibleTags :: "ContentItem list \<Rightarrow> Requester \<Rightarrow> string list" where
  "visibleTags contentItems requester =
     concat (map tags
       (filter (\<lambda>item. canView (visibility item) (creatorId item) requester) contentItems))"

text \<open>
  Modelled from the spec: \<^verbatim>\<open>aggregateTags\<close> (section 4.2), which is not among the sources:
  of the visible tags, drop those that are empty after trimming, deduplicate exactly, sort.
  No ancestor tag is added.
\<close>

definition aggregateTags ::
  "(string \<Rightarrow> string) \<Rightarrow> ContentItem list \<Rightarrow> Requester \<Rightarrow> string list" where
  "aggregateTags norm contentItems requester =
     sortTagsByHierarchy norm
       (remdups (filter (\<lambda>t. TrimSpace t \<noteq> []) (visibleTags contentItems requester)))"

section \<open>An in-memory instance of the collaborators\<close>

text \<open>
  A small store kept in lists, with which the theorems below are instantiated. It is one
  example of the collaborators, not a model of the repository's store: the theorems hold
  for all collaborators. The state
  holds the stored reactions, the memos (resource id and row id), the user the request
  context resolves to, and the webhooks sent so far. A user's extension is the role; the
  payload of a webhook is the memo's row id with the numbers of reactions and attachments.
\<close>

record mem =
  reactions :: "store_Reaction list"
  memos :: "(string \<times> int) list"
  session :: "(string User_scheme) option"
  sent :: "((int \<times> nat \<times> nat) \<times> v1pb_Reaction) list"

text \<open>Reading a decimal row id, for the resource names of this instance.\<close>

definition digit_val :: "char \<Rightarrow> nat option" where
  "digit_val c = (let n = (of_char c :: nat) in if 48 \<le> n \<and> n \<le> 57 then Some (n - 48) else None)"

fun parse_digits :: "nat \<Rightarrow> string \<Rightarrow> nat option" where
  "parse_digits acc [] = Some acc"
| "parse_digits acc (c # cs) =
     (case digit_val c of None \<Rightarrow> None | Some d \<Rightarrow> parse_digits (10 * acc + d) cs)"

text \<open>A reaction passes a \<open>FindReaction\<close> when it agrees with every filter that is set.\<close>

definition matches :: "FindReaction \<Rightarrow> store_Reaction \<Rightarrow> bool" where
  "matches f r =
     ((case Find_ID f of None \<Rightarrow> True | Some i \<Rightarrow> ID r = i) \<and>
      (case Find_ContentID f of None \<Rightarrow> True | Some c \<Rightarrow> ContentID r = c))"

text \<open>
  Names are \<^verbatim>\<open>memos/{uid}\<close> and \<^verbatim>\<open>memos/{uid}/reactions/{id}\<close>; hosts and administrators
  are super users; an upsert appends the reaction under the next row id; no call fails.
\<close>

definition mem_env :: "(mem, string, unit, string, int \<times> nat \<times> nat) env" where
  "mem_env =
     \<lparr> fetchCurrentUser = (\<lambda>s. Inr (session s)),
       isSuperUser = (\<lambda>u. User.more u = ''HOST'' \<or> User.more u = ''ADMIN''),
       ExtractMemoUIDFromName =
         (\<lambda>n. case segments n of
                 [a, uid] \<Rightarrow> if a = ''memos'' then Inr uid else Inl ''invalid memo name''
               | _ \<Rightarrow> Inl ''invalid memo name''),
       ExtractMemoReactionIDFromName =
         (\<lambda>n. case segments n of
                 [a, uid, b, i] \<Rightarrow>
                   if a = ''memos'' \<and> b = ''reactions'' \<and> i \<noteq> []
                   then (case parse_digits 0 i of
                           Some k \<Rightarrow> Inr (uid, int k)
                         | None \<Rightarrow> Inl ''invalid reaction id'')
                   else Inl ''invalid reaction name''
               | _ \<Rightarrow> Inl ''invalid reaction name''),
       ReactionNamePrefix = ''reactions/'',
       UserNamePrefix = ''users/'',
       ListReactions = (\<lambda>s f. Inr (filter (matches f) (reactions s))),
       GetReaction = (\<lambda>s f. Inr (find (matches f) (reactions s))),
       UpsertReaction =
         (\<lambda>s r. let r' = r\<lparr> ID := int (length (reactions s)) + 1 \<rparr>
                in (Inr r', s\<lparr> reactions := reactions s @ [r'] \<rparr>)),
       DeleteReaction = (\<lambda>s i. (None, s\<lparr> reactions := filter (\<lambda>r. ID r \<noteq> i) (reactions s) \<rparr>)),
       GetMemo = (\<lambda>s uid. Inr (map_option (\<lambda>i. \<lparr> Memo_ID = i \<rparr>) (map_of (memos s) uid))),
       ListAttachments = (\<lambda>s i. Inr []),
       convertMemoFromStore = (\<lambda>s m rs as. Inr (Memo_ID m, length rs, length as)),
       DispatchMemoReactedWebhook = (\<lambda>s mm r. (None, s\<lparr> sent := sent s @ [(mm, r)] \<rparr>)) \<rparr>"

text \<open>
  A state with two reactions on memo \<^verbatim>\<open>memos/m1\<close>, one by user 1 and one by user 2, and no
  user resolved; \<open>as_user\<close> resolves the request context to a user.
\<close>

definition mem0 :: mem where
  "mem0 =
     \<lparr> reactions =
         [\<lparr> ID = 1, CreatedTs = 100, CreatorID = 1, ContentID = ''memos/m1'', ReactionType = ''+1'' \<rparr>,
          \<lparr> ID = 2, CreatedTs = 200, CreatorID = 2, ContentID = ''memos/m1'', ReactionType = ''heart'' \<rparr>],
       memos = [(''m1'', 10)],
       session = None,
       sent = [] \<rparr>"

definition as_user :: "int \<Rightarrow> string \<Rightarrow> mem \<Rightarrow> mem" where
  "as_user uid role s = s\<lparr> session := Some \<lparr> User_ID = uid, \<dots> = role \<rparr> \<rparr>"

section \<open>Worked inputs for the tag listing\<close>

text \<open>
  The sort key under which \<open>tagBefore\<close> is the strict order of a linear order: the
  normalised segments first, the raw tag second. It is used in the proofs only.
\<close>

definition tag_key :: "(string \<Rightarrow> string) \<Rightarrow> string \<Rightarrow> string list \<times> string" where
  "tag_key norm t = (map norm (segments t), t)"

text \<open>
  The inputs of three scenarios that the specification (section 8) shares with
  \<^verbatim>\<open>test/user_service_tags_test.go\<close>: hierarchical tags in mixed order, one tag per
  visibility tier, and empty tags (with blank ones and a repeat added; U+3000 is the
  ideographic space, U+00A0 the no-break space, U+2028 the line separator). User 1 owns every memo.
\<close>

definition scenarioA :: "ContentItem list" where
  "scenarioA =
     map (\<lambda>t. \<lparr> contentId = ''memos/'' @ t, creatorId = 1, visibility = PUBLIC, tags = [t] \<rparr>)
       [''work/project2'', ''work'', ''personal/family'', ''personal'', ''work/project1'']"

definition scenarioB :: "ContentItem list" where
  "scenarioB =
     [\<lparr> contentId = ''memos/memo-1'', creatorId = 1, visibility = PUBLIC, tags = [''public-tag''] \<rparr>,
      \<lparr> contentId = ''memos/memo-2'', creatorId = 1, visibility = PROTECTED, tags = [''protected-tag''] \<rparr>,
      \<lparr> contentId = ''memos/memo-3'', creatorId = 1, visibility = PRIVATE, tags = [''private-tag''] \<rparr>]"

definition scenarioC :: "ContentItem list" where
  "scenarioC =
     [\<lparr> contentId = ''memos/memo-no-tags'', creatorId = 1, visibility = PUBLIC, tags = [] \<rparr>,
      \<lparr> contentId = ''memos/memo-empty-tags'', creatorId = 1, visibility = PUBLIC,
        tags = ['''', ''valid-tag'', '''', '' '', [CHR 0xE3, CHR 0x80, CHR 0x80], ''valid-tag'',
                [CHR 0xC2, CHR 0xA0, CHR 0x09, CHR 0xE2, CHR 0x80, CHR 0xA8]] \<rparr>]"

section \<open>Properties of the reaction service\<close>

text \<open>
  Claim C1. For an authenticated requester, deleting a reaction whose id the store does not
  know (\<^verbatim>\<open>GetReaction\<close> yields nil) and deleting an existing reaction of another user, the
  requester not being a super user, give the same answer: the status \<^verbatim>\<open>PermissionDenied\<close>
  with the same message, the state untouched. No run of \<^verbatim>\<open>DeleteMemoReaction\<close>, whatever the
  collaborators do, answers \<^verbatim>\<open>NotFound\<close>.
\<close>

theorem DeleteMemoReaction_masks_absence:
  fixes env :: "('s, 'u, 'm, 'a, 'mm) env"
  assumes auth: "fetchCurrentUser env st = Inr (Some user)"
    and name1: "ExtractMemoReactionIDFromName env name1 = Inr (m1, rid1)"
    and absent: "GetReaction env st \<lparr> Find_ID = Some rid1, Find_ContentID = None \<rparr> = Inr None"
  shows "DeleteMemoReaction env st name1 = (Inl (Status PermissionDenied ''permission denied''), st)
       \<and> (\<forall>name2 m2 rid2 r.
             ExtractMemoReactionIDFromName env name2 = Inr (m2, rid2)
             \<and> GetReaction env st \<lparr> Find_ID = Some rid2, Find_ContentID = None \<rparr> = Inr (Some r)
             \<and> CreatorID r \<noteq> User_ID user \<and> \<not> isSuperUser env user
             \<longrightarrow> DeleteMemoReaction env st name2 = DeleteMemoReaction env st name1)
       \<and> (\<forall>(e :: ('s, 'u, 'm, 'a, 'mm) env) s n msg.
             fst (DeleteMemoReaction e s n) \<noteq> Inl (Status NotFound msg))"
proof -
  have missing: "DeleteMemoReaction env st name1
      = (Inl (Status PermissionDenied ''permission denied''), st)"
    using auth name1 absent by (simp add: DeleteMemoReaction_def)
  have foreign: "DeleteMemoReaction env st name2
      = (Inl (Status PermissionDenied ''permission denied''), st)"
    if "ExtractMemoReactionIDFromName env name2 = Inr (m2, rid2)"
      and "GetReaction env st \<lparr> Find_ID = Some rid2, Find_ContentID = None \<rparr> = Inr (Some r)"
      and "CreatorID r \<noteq> User_ID user" and "\<not> isSuperUser env user"
    for name2 m2 rid2 r
    using auth that by (simp add: DeleteMemoReaction_def)
  have never: "fst (DeleteMemoReaction e s n) \<noteq> Inl (Status NotFound msg)"
    for e :: "('s, 'u, 'm, 'a, 'mm) env" and s n msg
    by (simp add: DeleteMemoReaction_def split: sum.splits option.splits prod.splits)
  from missing foreign never show ?thesis by simp
qed

text \<open>
  In the in-memory store user 2 asks for reaction 9, which does not exist, and for
  reaction 1, which user 1 created.
\<close>

theorem DeleteMemoReaction_masks_absence_witness:
  "DeleteMemoReaction mem_env (as_user 2 ''USER'' mem0) ''memos/m1/reactions/9''
     = (Inl (Status PermissionDenied ''permission denied''), as_user 2 ''USER'' mem0)
   \<and> DeleteMemoReaction mem_env (as_user 2 ''USER'' mem0) ''memos/m1/reactions/1''
     = DeleteMemoReaction mem_env (as_user 2 ''USER'' mem0) ''memos/m1/reactions/9''"
proof -
  let ?st = "as_user 2 ''USER'' mem0"
  have auth: "fetchCurrentUser mem_env ?st = Inr (Some \<lparr> User_ID = 2, \<dots> = ''USER'' \<rparr>)"
    by (simp add: mem_env_def as_user_def)
  have n1: "ExtractMemoReactionIDFromName mem_env ''memos/m1/reactions/9'' = Inr (''m1'', 9)"
    by (simp add: mem_env_def digit_val_def)
  have n2: "ExtractMemoReactionIDFromName mem_env ''memos/m1/reactions/1'' = Inr (''m1'', 1)"
    by (simp add: mem_env_def digit_val_def)
  have g1: "GetReaction mem_env ?st \<lparr> Find_ID = Some 9, Find_ContentID = None \<rparr> = Inr None"
    by (simp add: mem_env_def as_user_def mem0_def matches_def)
  have g2: "GetReaction mem_env ?st \<lparr> Find_ID = Some 1, Find_ContentID = None \<rparr>
      = Inr (Some \<lparr> ID = 1, CreatedTs = 100, CreatorID = 1, ContentID = ''memos/m1'', ReactionType = ''+1'' \<rparr>)"
    by (simp add: mem_env_def as_user_def mem0_def matches_def)
  have ns: "\<not> isSuperUser mem_env \<lparr> User_ID = 2, \<dots> = ''USER'' \<rparr>"
    by (simp add: mem_env_def)
  from DeleteMemoReaction_masks_absence [OF auth n1 g1] n2 g2 ns
  show ?thesis by simp
qed

text \<open>
  Claim C2. When the requester is authenticated and the store's upsert succeeds,
  \<^verbatim>\<open>UpsertMemoReaction\<close> returns the converted reaction and no error, whatever the steps of
  the webhook block do: the memo name resolution, the memo lookup, the two list fetches,
  the payload conversion and the dispatch are replaced by arbitrary functions, failing ones
  included, and the returned value stays the same.
\<close>

theorem UpsertMemoReaction_webhook_non_fatal:
  fixes env :: "('s, 'u, 'm, 'a, 'mm) env"
  assumes auth: "fetchCurrentUser env st = Inr (Some user)"
    and stored: "UpsertReaction env st
                   \<lparr> ID = 0, CreatedTs = 0, CreatorID = User_ID user,
                     ContentID = ContentId rq, ReactionType = ReactionType_pb rq \<rparr> = (Inr reaction, st1)"
  shows "fst (UpsertMemoReaction
                (env\<lparr> ExtractMemoUIDFromName := uid_of, ListReactions := list_reactions,
                      GetMemo := get_memo, ListAttachments := list_attachments,
                      convertMemoFromStore := convert, DispatchMemoReactedWebhook := dispatch \<rparr>)
                st (Some rq))
         = Inr (convertReactionFromStore env reaction)"
  using auth stored
  by (simp add: UpsertMemoReaction_def convertReactionFromStore_def Let_def split: prod.splits)

text \<open>Both list fetches and the dispatch fail; the reaction of user 2 is returned.\<close>

theorem UpsertMemoReaction_webhook_non_fatal_witness:
  "fst (UpsertMemoReaction
          (mem_env\<lparr> ListReactions := (\<lambda>s f. Inl ''connection reset''),
                    ListAttachments := (\<lambda>s i. Inl ''connection reset''),
                    DispatchMemoReactedWebhook := (\<lambda>s mm r. (Some ''endpoint unreachable'', s)) \<rparr>)
          (as_user 2 ''USER'' mem0)
          (Some \<lparr> Name = [], Creator = [], ContentId = ''memos/m1'', ReactionType_pb = ''tada'',
                  CreateTime = None \<rparr>))
   = Inr \<lparr> Name = ''memos/m1/reactions/3'', Creator = ''users/2'', ContentId = ''memos/m1'',
           ReactionType_pb = ''tada'', CreateTime = Some \<lparr> seconds = 0, nanos = 0 \<rparr> \<rparr>"
proof -
  let ?st = "as_user 2 ''USER'' mem0"
  let ?rq = "\<lparr> Name = [], Creator = [], ContentId = ''memos/m1'', ReactionType_pb = ''tada'',
               CreateTime = None \<rparr>"
  let ?r = "\<lparr> ID = 3, CreatedTs = 0, CreatorID = 2, ContentID = ''memos/m1'', ReactionType = ''tada'' \<rparr>"
  have auth: "fetchCurrentUser mem_env ?st = Inr (Some \<lparr> User_ID = 2, \<dots> = ''USER'' \<rparr>)"
    by (simp add: mem_env_def as_user_def)
  have stored: "UpsertReaction mem_env ?st
       \<lparr> ID = 0, CreatedTs = 0, CreatorID = User_ID \<lparr> User_ID = 2, \<dots> = ''USER'' \<rparr>,
         ContentID = ContentId ?rq, ReactionType = ReactionType_pb ?rq \<rparr>
     = (Inr ?r, ?st\<lparr> reactions := reactions ?st @ [?r] \<rparr>)"
    by (simp add: mem_env_def as_user_def mem0_def Let_def)
  have conv: "convertReactionFromStore mem_env ?r
     = \<lparr> Name = ''memos/m1/reactions/3'', Creator = ''users/2'', ContentId = ''memos/m1'',
         ReactionType_pb = ''tada'', CreateTime = Some \<lparr> seconds = 0, nanos = 0 \<rparr> \<rparr>"
    by (simp add: convertReactionFromStore_def mem_env_def fmt_d_def digit_def)
  from UpsertMemoReaction_webhook_non_fatal [OF auth stored,
         where uid_of = "ExtractMemoUIDFromName mem_env"
           and list_reactions = "\<lambda>s f. Inl ''connection reset''"
           and get_memo = "GetMemo mem_env"
           and list_attachments = "\<lambda>s i. Inl ''connection reset''"
           and convert = "convertMemoFromStore mem_env"
           and dispatch = "\<lambda>s mm r. (Some ''endpoint unreachable'', s)"] conv
  show ?thesis by simp
qed

text \<open>
  Claim C3 as worded, "succeeds exactly when the requester is the reaction's creator or
  privileged, and in every other case returns \<^verbatim>\<open>PermissionDenied\<close>", leaves out the store:
  user 1 deletes the reaction user 1 created, the store's delete fails, and the answer is
  \<^verbatim>\<open>Internal\<close>, neither success nor \<^verbatim>\<open>PermissionDenied\<close>.
\<close>

theorem DeleteMemoReaction_allowed_but_store_fails:
  "fetchCurrentUser (mem_env\<lparr> DeleteReaction := (\<lambda>s i. (Some ''database is locked'', s)) \<rparr>)
       (as_user 1 ''USER'' mem0) = Inr (Some \<lparr> User_ID = 1, \<dots> = ''USER'' \<rparr>)
   \<and> GetReaction (mem_env\<lparr> DeleteReaction := (\<lambda>s i. (Some ''database is locked'', s)) \<rparr>)
       (as_user 1 ''USER'' mem0) \<lparr> Find_ID = Some 1, Find_ContentID = None \<rparr>
       = Inr (Some \<lparr> ID = 1, CreatedTs = 100, CreatorID = 1, ContentID = ''memos/m1'',
                     ReactionType = ''+1'' \<rparr>)
   \<and> DeleteMemoReaction (mem_env\<lparr> DeleteReaction := (\<lambda>s i. (Some ''database is locked'', s)) \<rparr>)
       (as_user 1 ''USER'' mem0) ''memos/m1/reactions/1''
       = (Inl (Status Internal ''failed to delete reaction''), as_user 1 ''USER'' mem0)"
  by (simp add: DeleteMemoReaction_def mem_env_def as_user_def mem0_def matches_def digit_val_def)

text \<open>
  Claim C3, amended. For an authenticated requester and an existing reaction,
  \<^verbatim>\<open>DeleteMemoReaction\<close> succeeds exactly when the requester's id equals the reaction's own
  \<^verbatim>\<open>CreatorID\<close> or the requester is a super user, and the store's delete then does not fail.
  An allowed requester gets the outcome of the store's delete (\<^verbatim>\<open>Internal\<close> when it fails);
  any other requester gets \<^verbatim>\<open>PermissionDenied\<close> and the state is left as it was. The memo is
  never looked up: replacing \<^verbatim>\<open>GetMemo\<close> changes nothing, so the memo's creator plays no
  part.
\<close>

theorem DeleteMemoReaction_ownership:
  fixes env :: "('s, 'u, 'm, 'a, 'mm) env"
  assumes auth: "fetchCurrentUser env st = Inr (Some user)"
    and name: "ExtractMemoReactionIDFromName env request_Name = Inr (m, rid)"
    and present: "GetReaction env st \<lparr> Find_ID = Some rid, Find_ContentID = None \<rparr> = Inr (Some r)"
  shows "(fst (DeleteMemoReaction env st request_Name) = Inr ()
            \<longleftrightarrow> (CreatorID r = User_ID user \<or> isSuperUser env user)
                \<and> fst (DeleteReaction env st rid) = None)
       \<and> (CreatorID r = User_ID user \<or> isSuperUser env user \<longrightarrow>
            DeleteMemoReaction env st request_Name =
              (case DeleteReaction env st rid of
                 (Some err, st1) \<Rightarrow> (Inl (Status Internal ''failed to delete reaction''), st1)
               | (None, st1) \<Rightarrow> (Inr (), st1)))
       \<and> (\<not> (CreatorID r = User_ID user \<or> isSuperUser env user) \<longrightarrow>
            DeleteMemoReaction env st request_Name =
              (Inl (Status PermissionDenied ''permission denied''), st))
       \<and> DeleteMemoReaction (env\<lparr> GetMemo := get_memo \<rparr>) st request_Name
            = DeleteMemoReaction env st request_Name"
  using auth name present
  by (auto simp add: DeleteMemoReaction_def split: prod.splits option.splits)

text \<open>
  Reaction 1 belongs to user 1: user 1 deletes it, user 2 is refused, the administrator
  user 3 deletes it.
\<close>

theorem DeleteMemoReaction_ownership_witness:
  "fst (DeleteMemoReaction mem_env (as_user 1 ''USER'' mem0) ''memos/m1/reactions/1'') = Inr ()
   \<and> DeleteMemoReaction mem_env (as_user 2 ''USER'' mem0) ''memos/m1/reactions/1''
       = (Inl (Status PermissionDenied ''permission denied''), as_user 2 ''USER'' mem0)
   \<and> fst (DeleteMemoReaction mem_env (as_user 3 ''ADMIN'' mem0) ''memos/m1/reactions/1'') = Inr ()"
proof -
  let ?r = "\<lparr> ID = 1, CreatedTs = 100, CreatorID = 1, ContentID = ''memos/m1'', ReactionType = ''+1'' \<rparr>"
  have n: "ExtractMemoReactionIDFromName mem_env ''memos/m1/reactions/1'' = Inr (''m1'', 1)"
    by (simp add: mem_env_def digit_val_def)
  have auth: "fetchCurrentUser mem_env (as_user i role mem0) = Inr (Some \<lparr> User_ID = i, \<dots> = role \<rparr>)"
    for i role by (simp add: mem_env_def as_user_def)
  have g: "GetReaction mem_env (as_user i role mem0) \<lparr> Find_ID = Some 1, Find_ContentID = None \<rparr>
      = Inr (Some ?r)" for i role
    by (simp add: mem_env_def as_user_def mem0_def matches_def)
  have d: "fst (DeleteReaction mem_env s 1) = None" for s
    by (simp add: mem_env_def)
  have su: "isSuperUser mem_env \<lparr> User_ID = 3, \<dots> = ''ADMIN'' \<rparr>"
    by (simp add: mem_env_def)
  have nsu: "\<not> isSuperUser mem_env \<lparr> User_ID = 2, \<dots> = ''USER'' \<rparr>"
    by (simp add: mem_env_def)
  note own = DeleteMemoReaction_ownership [OF auth n g]
  from own [of 1 "''USER''", THEN conjunct1] d
  have a: "fst (DeleteMemoReaction mem_env (as_user 1 ''USER'' mem0) ''memos/m1/reactions/1'') = Inr ()"
    by simp
  from own [of 2 "''USER''", THEN conjunct2, THEN conjunct2, THEN conjunct1] nsu
  have b: "DeleteMemoReaction mem_env (as_user 2 ''USER'' mem0) ''memos/m1/reactions/1''
       = (Inl (Status PermissionDenied ''permission denied''), as_user 2 ''USER'' mem0)"
    by simp
  from own [of 3 "''ADMIN''", THEN conjunct1] d su
  have c: "fst (DeleteMemoReaction mem_env (as_user 3 ''ADMIN'' mem0) ''memos/m1/reactions/1'') = Inr ()"
    by simp
  from a b c show ?thesis by simp
qed

text \<open>
  Claim C4. When the request context resolves to no user, \<^verbatim>\<open>UpsertMemoReaction\<close> and
  \<^verbatim>\<open>DeleteMemoReaction\<close> both answer \<^verbatim>\<open>Unauthenticated\<close>; the state is the one they were
  given (no store call that writes has run) and nothing is logged.
\<close>

theorem unauthenticated_rejected:
  fixes env :: "('s, 'u, 'm, 'a, 'mm) env"
  assumes anon: "fetchCurrentUser env st = Inr None"
  shows "UpsertMemoReaction env st request_Reaction
           = (Inl (Status Unauthenticated ''user not authenticated''), st, [])
       \<and> DeleteMemoReaction env st request_Name
           = (Inl (Status Unauthenticated ''user not authenticated''), st)"
  using anon by (simp add: UpsertMemoReaction_def DeleteMemoReaction_def)

text \<open>The state \<open>mem0\<close> resolves to no user.\<close>

theorem unauthenticated_rejected_witness:
  "UpsertMemoReaction mem_env mem0
       (Some \<lparr> Name = [], Creator = [], ContentId = ''memos/m1'', ReactionType_pb = ''tada'',
               CreateTime = None \<rparr>)
     = (Inl (Status Unauthenticated ''user not authenticated''), mem0, [])
   \<and> DeleteMemoReaction mem_env mem0 ''memos/m1/reactions/1''
     = (Inl (Status Unauthenticated ''user not authenticated''), mem0)"
proof -
  have anon: "fetchCurrentUser mem_env mem0 = Inr None"
    by (simp add: mem_env_def mem0_def)
  from unauthenticated_rejected [OF anon] show ?thesis by simp
qed

text \<open>
  Claim C8. Inside \<^verbatim>\<open>UpsertMemoReaction\<close>, once the reaction is stored and the memo is found:
  a failed fetch of the memo's reactions hands the empty list to the payload conversion, a
  failed fetch of its attachments hands the empty list too, each failure writes its
  warning, and the run goes on: when the conversion succeeds the webhook is dispatched
  with that payload (the final state is the one the dispatcher leaves) and the reaction is
  returned. The three cases are: reactions fail, attachments fail, both fail.
\<close>

theorem webhook_fetch_failure_is_empty_list:
  fixes env :: "('s, 'u, 'm, 'a, 'mm) env"
  assumes auth: "fetchCurrentUser env st = Inr (Some user)"
    and stored: "UpsertReaction env st
                   \<lparr> ID = 0, CreatedTs = 0, CreatorID = User_ID user,
                     ContentID = ContentId rq, ReactionType = ReactionType_pb rq \<rparr> = (Inr reaction, st1)"
    and uid: "ExtractMemoUIDFromName env (ContentId rq) = Inr memoUID"
    and found: "GetMemo env st1 memoUID = Inr (Some memo)"
    and sent: "DispatchMemoReactedWebhook env st1 memoMessage
                 (convertReactionFromStore env reaction) = (outcome, st2)"
  shows "(ListReactions env st1 \<lparr> Find_ID = None, Find_ContentID = Some (ContentId rq) \<rparr> = Inl e1
            \<and> ListAttachments env st1 (Memo_ID memo) = Inr attachments
            \<and> convertMemoFromStore env st1 memo [] attachments = Inr memoMessage
          \<longrightarrow> UpsertMemoReaction env st (Some rq) =
                (Inr (convertReactionFromStore env reaction), st2,
                 Warn ''Failed to list reactions for webhook'' e1 #
                 (case outcome of
                    Some err \<Rightarrow> [Warn ''Failed to dispatch memo reacted webhook'' err]
                  | None \<Rightarrow> [])))
       \<and> (ListReactions env st1 \<lparr> Find_ID = None, Find_ContentID = Some (ContentId rq) \<rparr> = Inr rs
            \<and> ListAttachments env st1 (Memo_ID memo) = Inl e2
            \<and> convertMemoFromStore env st1 memo rs [] = Inr memoMessage
          \<longrightarrow> UpsertMemoReaction env st (Some rq) =
                (Inr (convertReactionFromStore env reaction), st2,
                 Warn ''Failed to list attachments for webhook'' e2 #
                 (case outcome of
                    Some err \<Rightarrow> [Warn ''Failed to dispatch memo reacted webhook'' err]
                  | None \<Rightarrow> [])))
       \<and> (ListReactions env st1 \<lparr> Find_ID = None, Find_ContentID = Some (ContentId rq) \<rparr> = Inl e1
            \<and> ListAttachments env st1 (Memo_ID memo) = Inl e2
            \<and> convertMemoFromStore env st1 memo [] [] = Inr memoMessage
          \<longrightarrow> UpsertMemoReaction env st (Some rq) =
                (Inr (convertReactionFromStore env reaction), st2,
                 Warn ''Failed to list reactions for webhook'' e1 #
                 Warn ''Failed to list attachments for webhook'' e2 #
                 (case outcome of
                    Some err \<Rightarrow> [Warn ''Failed to dispatch memo reacted webhook'' err]
                  | None \<Rightarrow> [])))"
  using auth stored uid found sent
  by (cases outcome) (simp_all add: UpsertMemoReaction_def reactionWebhook_def)

text \<open>
  Both fetches fail in the in-memory store: the webhook is sent with zero reactions and
  zero attachments, and the two warnings are logged.
\<close>

theorem webhook_fetch_failure_is_empty_list_witness:
  "UpsertMemoReaction
     (mem_env\<lparr> ListReactions := (\<lambda>s f. Inl ''connection reset''),
               ListAttachments := (\<lambda>s i. Inl ''disk full'') \<rparr>)
     (as_user 2 ''USER'' mem0)
     (Some \<lparr> Name = [], Creator = [], ContentId = ''memos/m1'', ReactionType_pb = ''tada'',
             CreateTime = None \<rparr>)
   = (Inr \<lparr> Name = ''memos/m1/reactions/3'', Creator = ''users/2'', ContentId = ''memos/m1'',
             ReactionType_pb = ''tada'', CreateTime = Some \<lparr> seconds = 0, nanos = 0 \<rparr> \<rparr>,
      \<lparr> reactions = reactions mem0 @
          [\<lparr> ID = 3, CreatedTs = 0, CreatorID = 2, ContentID = ''memos/m1'', ReactionType = ''tada'' \<rparr>],
        memos = [(''m1'', 10)],
        session = Some \<lparr> User_ID = 2, \<dots> = ''USER'' \<rparr>,
        sent = [((10, 0, 0),
                 \<lparr> Name = ''memos/m1/reactions/3'', Creator = ''users/2'', ContentId = ''memos/m1'',
                   ReactionType_pb = ''tada'', CreateTime = Some \<lparr> seconds = 0, nanos = 0 \<rparr> \<rparr>)] \<rparr>,
      [Warn ''Failed to list reactions for webhook'' ''connection reset'',
       Warn ''Failed to list attachments for webhook'' ''disk full''])"
proof -
  let ?env = "mem_env\<lparr> ListReactions := (\<lambda>s f. Inl ''connection reset''),
                        ListAttachments := (\<lambda>s i. Inl ''disk full'') \<rparr>"
  let ?st = "as_user 2 ''USER'' mem0"
  let ?rq = "\<lparr> Name = [], Creator = [], ContentId = ''memos/m1'', ReactionType_pb = ''tada'',
               CreateTime = None \<rparr>"
  let ?r = "\<lparr> ID = 3, CreatedTs = 0, CreatorID = 2, ContentID = ''memos/m1'', ReactionType = ''tada'' \<rparr>"
  let ?st1 = "?st\<lparr> reactions := reactions ?st @ [?r] \<rparr>"
  let ?msg = "\<lparr> Name = ''memos/m1/reactions/3'', Creator = ''users/2'', ContentId = ''memos/m1'',
                ReactionType_pb = ''tada'', CreateTime = Some \<lparr> seconds = 0, nanos = 0 \<rparr> \<rparr>"
  have auth: "fetchCurrentUser ?env ?st = Inr (Some \<lparr> User_ID = 2, \<dots> = ''USER'' \<rparr>)"
    by (simp add: mem_env_def as_user_def)
  have stored: "UpsertReaction ?env ?st
       \<lparr> ID = 0, CreatedTs = 0, CreatorID = User_ID \<lparr> User_ID = 2, \<dots> = ''USER'' \<rparr>,
         ContentID = ContentId ?rq, ReactionType = ReactionType_pb ?rq \<rparr> = (Inr ?r, ?st1)"
    by (simp add: mem_env_def as_user_def mem0_def Let_def)
  have uid: "ExtractMemoUIDFromName ?env (ContentId ?rq) = Inr ''m1''"
    by (simp add: mem_env_def)
  have found: "GetMemo ?env ?st1 ''m1'' = Inr (Some \<lparr> Memo_ID = 10 \<rparr>)"
    by (simp add: mem_env_def as_user_def mem0_def)
  have conv: "convertReactionFromStore ?env ?r = ?msg"
    by (simp add: convertReactionFromStore_def mem_env_def fmt_d_def digit_def)
  have sent: "DispatchMemoReactedWebhook ?env ?st1 (10, 0, 0) (convertReactionFromStore ?env ?r)
      = (None, ?st1\<lparr> sent := [((10, 0, 0), ?msg)] \<rparr>)"
    unfolding conv by (simp add: mem_env_def as_user_def mem0_def)
  have lr: "ListReactions ?env ?st1 \<lparr> Find_ID = None, Find_ContentID = Some (ContentId ?rq) \<rparr>
      = Inl ''connection reset''"
    by simp
  have la: "ListAttachments ?env ?st1 (Memo_ID \<lparr> Memo_ID = 10 \<rparr>) = Inl ''disk full''"
    by simp
  have cv: "convertMemoFromStore ?env ?st1 \<lparr> Memo_ID = 10 \<rparr> [] [] = Inr (10, 0, 0)"
    by (simp add: mem_env_def)
  from webhook_fetch_failure_is_empty_list [OF auth stored uid found sent,
         THEN conjunct2, THEN conjunct2, of "''connection reset''" "''disk full''"] lr la cv
  have "UpsertMemoReaction ?env ?st (Some ?rq) =
      (Inr (convertReactionFromStore ?env ?r), ?st1\<lparr> sent := [((10, 0, 0), ?msg)] \<rparr>,
       [Warn ''Failed to list reactions for webhook'' ''connection reset'',
        Warn ''Failed to list attachments for webhook'' ''disk full''])"
    by simp
  then show ?thesis
    unfolding conv by (simp add: as_user_def mem0_def)
qed

text \<open>
  Claim C9. \<^verbatim>\<open>ListMemoReactions\<close> returns the conversion of every reaction the store lists
  for the content id, in the store's order, none dropped. It never asks who the requester
  is and never looks the memo up: the answer is the same whatever \<^verbatim>\<open>fetchCurrentUser\<close>,
  \<^verbatim>\<open>isSuperUser\<close> and \<^verbatim>\<open>GetMemo\<close> are replaced with.
\<close>

theorem ListMemoReactions_unfiltered:
  fixes env :: "('s, 'u, 'm, 'a, 'mm) env"
  assumes listed: "ListReactions env st \<lparr> Find_ID = None, Find_ContentID = Some request_Name \<rparr>
                     = Inr rs"
  shows "ListMemoReactions
           (env\<lparr> fetchCurrentUser := current_user, isSuperUser := super, GetMemo := get_memo \<rparr>)
           st request_Name
         = Inr \<lparr> Reactions = map (convertReactionFromStore env) rs \<rparr>"
  using listed by (simp add: ListMemoReactions_def convertReactionFromStore_def)

text \<open>With no user resolved, both reactions on \<^verbatim>\<open>memos/m1\<close> are listed.\<close>

theorem ListMemoReactions_unfiltered_witness:
  "ListMemoReactions (mem_env\<lparr> fetchCurrentUser := (\<lambda>s. Inr None) \<rparr>) mem0 ''memos/m1''
   = Inr \<lparr> Reactions =
       [\<lparr> Name = ''memos/m1/reactions/1'', Creator = ''users/1'', ContentId = ''memos/m1'',
          ReactionType_pb = ''+1'', CreateTime = Some \<lparr> seconds = 100, nanos = 0 \<rparr> \<rparr>,
        \<lparr> Name = ''memos/m1/reactions/2'', Creator = ''users/2'', ContentId = ''memos/m1'',
          ReactionType_pb = ''heart'', CreateTime = Some \<lparr> seconds = 200, nanos = 0 \<rparr> \<rparr>] \<rparr>"
proof -
  have listed: "ListReactions mem_env mem0 \<lparr> Find_ID = None, Find_ContentID = Some ''memos/m1'' \<rparr>
      = Inr (reactions mem0)"
    by (simp add: mem_env_def mem0_def matches_def)
  from ListMemoReactions_unfiltered [OF listed,
         where current_user = "\<lambda>s. Inr None" and super = "isSuperUser mem_env"
           and get_memo = "GetMemo mem_env"]
  show ?thesis
    by (simp add: mem0_def convertReactionFromStore_def mem_env_def fmt_d_def digit_def)
qed




section \<open>Properties of the tag listing\<close>

subsection \<open>The comparator is a linear order, the sort is a sort\<close>

lemma compareSegments_Before:
  "compareSegments norm xs ys = Before \<longleftrightarrow> map norm xs < map norm ys"
  by (induction norm xs ys rule: compareSegments.induct) auto

lemma compareSegments_After:
  "compareSegments norm xs ys = After \<longleftrightarrow> map norm ys < map norm xs"
  by (induction norm xs ys rule: compareSegments.induct) auto

lemma compareSegments_Tie:
  "compareSegments norm xs ys = Tie \<longleftrightarrow> map norm xs = map norm ys"
  by (induction norm xs ys rule: compareSegments.induct) auto

lemma tagBefore_key: "tagBefore norm a b \<longleftrightarrow> tag_key norm a < tag_key norm b"
proof (cases "compareSegments norm (segments a) (segments b)")
  case Before
  then have "map norm (segments a) < map norm (segments b)"
    by (simp add: compareSegments_Before)
  with Before show ?thesis
    by (simp add: tagBefore_def tag_key_def less_prod_def)
next
  case Tie
  then have "map norm (segments a) = map norm (segments b)"
    by (simp add: compareSegments_Tie)
  with Tie show ?thesis
    by (simp add: tagBefore_def tag_key_def less_prod_def)
next
  case After
  then have "map norm (segments b) < map norm (segments a)"
    by (simp add: compareSegments_After)
  with After show ?thesis
    by (auto simp add: tagBefore_def tag_key_def less_prod_def)
qed

lemma insertTag_insort: "insertTag norm t xs = insort_key (tag_key norm) t xs"
  by (induction xs) (auto simp add: tagBefore_key)

lemma sortTagsByHierarchy_sort: "sortTagsByHierarchy norm ts = sort_key (tag_key norm) ts"
  by (induction ts) (simp_all add: insertTag_insort sort_key_def)

lemma set_sortTagsByHierarchy: "set (sortTagsByHierarchy norm ts) = set ts"
  by (simp add: sortTagsByHierarchy_sort)

lemma distinct_sortTagsByHierarchy: "distinct (sortTagsByHierarchy norm ts) = distinct ts"
  by (simp add: sortTagsByHierarchy_sort)

lemma sorted_sortTagsByHierarchy: "sorted (map (tag_key norm) (sortTagsByHierarchy norm ts))"
  by (simp add: sortTagsByHierarchy_sort)

subsection \<open>Segments of a child tag\<close>

lemma segments_not_Nil: "segments s \<noteq> []"
  by (induction s) (auto split: list.splits)

lemma segments_append_slash: "segments (p @ CHR ''/'' # c) = segments p @ segments c"
  by (induction p) (auto split: list.splits simp add: segments_not_Nil)

lemma less_append_Cons: "xs < xs @ y # ys" for xs :: "'a::linorder list"
  by (induction xs) auto

lemma ancestor_key_less:
  assumes "strict_prefix (segments p) (segments q)"
  shows "tag_key norm p < tag_key norm q"
proof -
  from assms obtain z zs where "segments q = segments p @ z # zs"
    by (auto simp add: strict_prefix_def prefix_def neq_Nil_conv)
  then have "map norm (segments p) < map norm (segments q)"
    by (simp add: less_append_Cons)
  then show ?thesis by (simp add: tag_key_def less_prod_def)
qed

lemma sorted_keys_precede:
  assumes srt: "sorted (map f out)" and p: "p \<in> set out" and q: "q \<in> set out"
    and lt: "f p < f q"
  shows "\<exists>xs ys zs. out = xs @ p # ys @ q # zs"
proof -
  from p obtain xs bs where out: "out = xs @ p # bs" by (auto simp add: in_set_conv_decomp)
  from lt have "q \<noteq> p" by auto
  have "q \<notin> set xs"
  proof
    assume "q \<in> set xs"
    with srt out have "f q \<le> f p" by (auto simp add: sorted_append)
    with lt show False by simp
  qed
  with q out \<open>q \<noteq> p\<close> have "q \<in> set bs" by auto
  then obtain ys zs where "bs = ys @ q # zs" by (auto simp add: in_set_conv_decomp)
  with out show ?thesis by blast
qed

subsection \<open>White space\<close>

text \<open>The UTF-8 encodings of the white space code points, computed once.\<close>

lemma space_encodings_bytes [code]:
  "space_encodings =
     [[CHR 0x09], [CHR 0x0A], [CHR 0x0B], [CHR 0x0C], [CHR 0x0D], [CHR 0x20],
      [CHR 0xC2, CHR 0x85], [CHR 0xC2, CHR 0xA0], [CHR 0xE1, CHR 0x9A, CHR 0x80],
      [CHR 0xE2, CHR 0x80, CHR 0x80], [CHR 0xE2, CHR 0x80, CHR 0x81],
      [CHR 0xE2, CHR 0x80, CHR 0x82], [CHR 0xE2, CHR 0x80, CHR 0x83],
      [CHR 0xE2, CHR 0x80, CHR 0x84], [CHR 0xE2, CHR 0x80, CHR 0x85],
      [CHR 0xE2, CHR 0x80, CHR 0x86], [CHR 0xE2, CHR 0x80, CHR 0x87],
      [CHR 0xE2, CHR 0x80, CHR 0x88], [CHR 0xE2, CHR 0x80, CHR 0x89],
      [CHR 0xE2, CHR 0x80, CHR 0x8A], [CHR 0xE2, CHR 0x80, CHR 0xA8],
      [CHR 0xE2, CHR 0x80, CHR 0xA9], [CHR 0xE2, CHR 0x80, CHR 0xAF],
      [CHR 0xE2, CHR 0x81, CHR 0x9F], [CHR 0xE3, CHR 0x80, CHR 0x80]]"
  by (simp add: space_encodings_def White_Space_def utf8_def char_of_def bit_0)

text \<open>
  Blank tags trim to nothing, whichever white space they are made of; a zero width space
  (U+200B) is not white space and stays.
\<close>

lemma TrimSpace_blank:
  "TrimSpace '''' = []"
  "TrimSpace '' '' = []"
  "TrimSpace [CHR 0xE3, CHR 0x80, CHR 0x80] = []"
  "TrimSpace [CHR 0xC2, CHR 0xA0, CHR 0x09, CHR 0xE2, CHR 0x80, CHR 0xA8] = []"
  by code_simp+

lemma TrimSpace_not_blank:
  "TrimSpace ''valid-tag'' = ''valid-tag''"
  "TrimSpace [CHR 0xE2, CHR 0x80, CHR 0x8B] = [CHR 0xE2, CHR 0x80, CHR 0x8B]"
  "TrimSpace ([CHR 0xC2, CHR 0xA0] @ '' a b '' @ [CHR 0xE3, CHR 0x80, CHR 0x80]) = ''a b''"
  by code_simp+

subsection \<open>The aggregated list\<close>

lemma set_aggregateTags:
  "set (aggregateTags norm items r) = {t \<in> set (visibleTags items r). TrimSpace t \<noteq> []}"
  by (simp add: aggregateTags_def set_sortTagsByHierarchy)

lemma distinct_aggregateTags: "distinct (aggregateTags norm items r)"
  by (simp add: aggregateTags_def distinct_sortTagsByHierarchy)

lemma count_list_distinct: "distinct xs \<Longrightarrow> count_list xs x = (if x \<in> set xs then 1 else 0)"
  by (induction xs) auto

lemma canView_Anonymous: "canView v c Anonymous \<Longrightarrow> canView v c (Authenticated u p)"
  by (simp split: if_splits)

lemma canView_owner: "canView v c (Authenticated c p)"
  by simp

lemma canView_privileged: "canView v c (Authenticated u True)"
  by simp

lemma visibleTags_mono:
  assumes "\<And>item. item \<in> set items \<Longrightarrow>
             canView (visibility item) (creatorId item) r1 \<Longrightarrow>
             canView (visibility item) (creatorId item) r2"
  shows "set (visibleTags items r1) \<subseteq> set (visibleTags items r2)"
  using assms unfolding visibleTags_def by (auto simp del: canView.simps)

text \<open>The expected outputs of the three scenarios.\<close>

lemma scenarioA_sorted:
  "aggregateTags id scenarioA (Authenticated 1 False) =
     [''personal'', ''personal/family'', ''work'', ''work/project1'', ''work/project2'']"
  by code_simp

lemma scenarioB_views:
  "aggregateTags id scenarioB (Authenticated 1 False) = [''private-tag'', ''protected-tag'', ''public-tag'']"
  "aggregateTags id scenarioB (Authenticated 2 False) = [''protected-tag'', ''public-tag'']"
  "aggregateTags id scenarioB Anonymous = [''public-tag'']"
  by code_simp+

lemma scenarioC_valid_only: "aggregateTags id scenarioC Anonymous = [''valid-tag'']"
  by code_simp

text \<open>
  Claim C5. When a tag \<open>p\<close> and a tag \<open>q\<close> both occur in the aggregated output and \<open>q\<close> is
  \<open>p/c\<close> for some \<open>c\<close>, or more generally the segments of \<open>p\<close> are a strict prefix of the
  segments of \<open>q\<close>, then \<open>p\<close> stands before \<open>q\<close> in the output. This holds for every
  normalisation function.
\<close>

theorem ancestor_precedes_descendant:
  assumes p: "p \<in> set (aggregateTags norm contentItems requester)"
    and q: "q \<in> set (aggregateTags norm contentItems requester)"
    and anc: "q = p @ ''/'' @ c \<or> strict_prefix (segments p) (segments q)"
  shows "\<exists>xs ys zs. aggregateTags norm contentItems requester = xs @ p # ys @ q # zs"
proof -
  from anc have "strict_prefix (segments p) (segments q)"
    using segments_not_Nil [of c]
    by (auto simp add: segments_append_slash strict_prefix_def)
  then have lt: "tag_key norm p < tag_key norm q"
    by (rule ancestor_key_less)
  have "sorted (map (tag_key norm) (aggregateTags norm contentItems requester))"
    by (simp add: aggregateTags_def sorted_sortTagsByHierarchy)
  from sorted_keys_precede [OF this p q lt] show ?thesis .
qed

text \<open>In scenario A, \<^verbatim>\<open>work\<close> stands before \<^verbatim>\<open>work/project2\<close>.\<close>

theorem ancestor_precedes_descendant_witness:
  "\<exists>xs ys zs. aggregateTags id scenarioA (Authenticated 1 False)
      = xs @ ''work'' # ys @ ''work/project2'' # zs"
proof -
  have p: "''work'' \<in> set (aggregateTags id scenarioA (Authenticated 1 False))"
    by (simp add: scenarioA_sorted)
  have q: "''work/project2'' \<in> set (aggregateTags id scenarioA (Authenticated 1 False))"
    by (simp add: scenarioA_sorted)
  have anc: "''work/project2'' = ''work'' @ ''/'' @ ''project2''
      \<or> strict_prefix (segments ''work'') (segments ''work/project2'')"
    by simp
  from ancestor_precedes_descendant [OF p q anc] show ?thesis .
qed

text \<open>
  Claim C6. For the same content items, the tags an anonymous requester gets are among
  those any authenticated requester gets, and these are among those the owner gets (when
  every item belongs to that owner) and among those a privileged requester gets.
\<close>

theorem visibility_monotone:
  "set (aggregateTags norm contentItems Anonymous)
     \<subseteq> set (aggregateTags norm contentItems (Authenticated visitor vp))
   \<and> ((\<forall>item \<in> set contentItems. creatorId item = owner) \<longrightarrow>
        set (aggregateTags norm contentItems (Authenticated visitor vp))
          \<subseteq> set (aggregateTags norm contentItems (Authenticated owner op)))
   \<and> set (aggregateTags norm contentItems (Authenticated visitor vp))
        \<subseteq> set (aggregateTags norm contentItems (Authenticated admin True))"
proof -
  have a: "set (visibleTags contentItems Anonymous)
             \<subseteq> set (visibleTags contentItems (Authenticated visitor vp))"
    by (rule visibleTags_mono) (rule canView_Anonymous)
  have b: "set (visibleTags contentItems (Authenticated visitor vp))
             \<subseteq> set (visibleTags contentItems (Authenticated owner op))"
    if "\<forall>item \<in> set contentItems. creatorId item = owner"
    using that by (intro visibleTags_mono) (simp only: canView_owner)
  have c: "set (visibleTags contentItems (Authenticated visitor vp))
             \<subseteq> set (visibleTags contentItems (Authenticated admin True))"
    by (rule visibleTags_mono) (rule canView_privileged)
  from a b c show ?thesis
    unfolding set_aggregateTags by blast
qed

text \<open>Scenario B: anonymous, user 2, the owner user 1, and a privileged user 3.\<close>

theorem visibility_monotone_witness:
  "set (aggregateTags id scenarioB Anonymous) \<subseteq> set (aggregateTags id scenarioB (Authenticated 2 False))
   \<and> set (aggregateTags id scenarioB (Authenticated 2 False))
       \<subseteq> set (aggregateTags id scenarioB (Authenticated 1 False))
   \<and> set (aggregateTags id scenarioB (Authenticated 2 False))
       \<subseteq> set (aggregateTags id scenarioB (Authenticated 3 True))"
proof -
  have own: "\<forall>item \<in> set scenarioB. creatorId item = 1"
    by (simp add: scenarioB_def)
  from visibility_monotone [of id scenarioB 2 False 1 False 3] own
  show ?thesis by blast
qed

text \<open>
  Claim C7. Every tag occurs in the aggregated output exactly once when it occurs among the
  tags of the visible items and is not empty after trimming, and not at all otherwise. In
  particular, for any list of tag strings \<open>ts\<close> (repeats, empty and blank strings
  included) carried by one public item, the output holds each tag of \<open>ts\<close> that is not
  empty after trimming exactly once and no other string.
\<close>

theorem aggregateTags_each_tag_once:
  "count_list (aggregateTags norm contentItems requester) t =
     (if t \<in> set (visibleTags contentItems requester) \<and> TrimSpace t \<noteq> [] then 1 else 0)
   \<and> count_list
        (aggregateTags norm
           [\<lparr> contentId = cid, creatorId = creator, visibility = PUBLIC, tags = ts \<rparr>] requester) t =
     (if t \<in> set ts \<and> TrimSpace t \<noteq> [] then 1 else 0)"
proof -
  have one: "count_list (aggregateTags norm items requester) t =
     (if t \<in> set (visibleTags items requester) \<and> TrimSpace t \<noteq> [] then 1 else 0)" for items
    by (simp add: count_list_distinct [OF distinct_aggregateTags] set_aggregateTags)
  have "visibleTags [\<lparr> contentId = cid, creatorId = creator, visibility = PUBLIC, tags = ts \<rparr>]
          requester = ts"
    by (simp add: visibleTags_def)
  with one show ?thesis by simp
qed

text \<open>
  Scenario C: the valid tag once although it is stored twice; the empty tag and the blank
  tags (a space, an ideographic space, a mix of no-break space, tab and line separator)
  never.
\<close>

theorem aggregateTags_each_tag_once_witness:
  "count_list (aggregateTags id scenarioC Anonymous) ''valid-tag'' = 1
   \<and> count_list (aggregateTags id scenarioC Anonymous) '''' = 0
   \<and> count_list (aggregateTags id scenarioC Anonymous) '' '' = 0
   \<and> count_list (aggregateTags id scenarioC Anonymous) [CHR 0xE3, CHR 0x80, CHR 0x80] = 0
   \<and> count_list (aggregateTags id scenarioC Anonymous)
         [CHR 0xC2, CHR 0xA0, CHR 0x09, CHR 0xE2, CHR 0x80, CHR 0xA8] = 0"
proof -
  have v: "visibleTags scenarioC Anonymous =
      ['''', ''valid-tag'', '''', '' '', [CHR 0xE3, CHR 0x80, CHR 0x80], ''valid-tag'',
       [CHR 0xC2, CHR 0xA0, CHR 0x09, CHR 0xE2, CHR 0x80, CHR 0xA8]]"
    by (simp add: visibleTags_def scenarioC_def)
  have t: "TrimSpace ''valid-tag'' \<noteq> []"
    by (simp add: TrimSpace_not_blank)
  note once = aggregateTags_each_tag_once [of id scenarioC Anonymous, THEN conjunct1]
  from once [of "''valid-tag''"] v t
  have a: "count_list (aggregateTags id scenarioC Anonymous) ''valid-tag'' = 1"
    by simp
  from once [of "''''"] once [of "'' ''"] once [of "[CHR 0xE3, CHR 0x80, CHR 0x80]"]
       once [of "[CHR 0xC2, CHR 0xA0, CHR 0x09, CHR 0xE2, CHR 0x80, CHR 0xA8]"]
  have b: "count_list (aggregateTags id scenarioC Anonymous) '''' = 0"
       "count_list (aggregateTags id scenarioC Anonymous) '' '' = 0"
       "count_list (aggregateTags id scenarioC Anonymous) [CHR 0xE3, CHR 0x80, CHR 0x80] = 0"
       "count_list (aggregateTags id scenarioC Anonymous)
          [CHR 0xC2, CHR 0xA0, CHR 0x09, CHR 0xE2, CHR 0x80, CHR 0xA8] = 0"
    by (simp_all add: TrimSpace_blank)
  from a b show ?thesis by simp
qed

end
